theory Spec2Isabelle
  imports Complex_Main
begin

section \<open>Values, documents and payloads\<close>

text \<open>
  The values that occur in request bodies, in validated models and in stored documents.
  A timestamp is a naive UTC \<^verbatim>\<open>datetime\<close>, counted in microseconds; a date is counted
  in days. A finite Python float is a rational number. \<open>VId\<close> is the string form of a
  store-generated identifier.
\<close>

type_synonym timestamp = nat

datatype val =
    VNull
  | VBool bool
  | VInt int
  | VFloat rat
  | VStr string
  | VDate nat
  | VDatetime timestamp
  | VId nat
  | VList "val list"
  | VDict "(string \<times> val) list"

text \<open>
  A document is a Python \<^verbatim>\<open>dict\<close> with string keys in insertion order. A payload is the
  parsed JSON object of a request body, read by key.
\<close>

type_synonym doc = "(string \<times> val) list"
type_synonym payload = "string \<rightharpoonup> val"

definition get :: "doc \<Rightarrow> string \<Rightarrow> val" where
  \<comment> \<open>\<^verbatim>\<open>d.get(k)\<close>: the value, or \<^verbatim>\<open>None\<close> for a key that is absent\<close>
  "get d k = (case map_of d k of None \<Rightarrow> VNull | Some v \<Rightarrow> v)"

section \<open>The schemas of \<^verbatim>\<open>schemas.py\<close>\<close>

datatype kind =
    User | Patient | Doctor | Appointment | Medicine | Prescription
  | LabTest | Invoice | Vital | BedAssignment | InventoryItem | MedicalRecord

text \<open>
  The annotation of a field: a scalar type, whose conversion belongs to the validation
  library, a \<^verbatim>\<open>Literal[...]\<close> of strings, \<^verbatim>\<open>Optional[T]\<close>, \<^verbatim>\<open>List[T]\<close> or \<^verbatim>\<open>dict\<close>.
\<close>

datatype scalar = SStr | SInt | SFloat | SBool | SDate | SDatetime | SEmail

datatype ftype =
    TScalar scalar
  | TLiteral "string list"
  | TOptional ftype
  | TList ftype
  | TDict

text \<open>
  What a field declares after its annotation: nothing or \<^verbatim>\<open>Field(...)\<close> (required), a
  default value, \<^verbatim>\<open>default_factory=list\<close> or \<^verbatim>\<open>default_factory=datetime.utcnow\<close>.
\<close>

datatype dflt = Required | Default val | Factory_list | Factory_utcnow

type_synonym field = "string \<times> ftype \<times> dflt"

definition User_fields :: "field list" where
  "User_fields =
    [(''email'', TScalar SEmail, Required),
     (''password_hash'', TScalar SStr, Required),
     (''full_name'', TScalar SStr, Required),
     (''role'', TLiteral [''admin'', ''doctor'', ''nurse'', ''pharmacist'', ''lab'', ''patient''],
        Required),
     (''phone'', TOptional (TScalar SStr), Default VNull),
     (''is_active'', TScalar SBool, Default (VBool True)),
     (''verified'', TScalar SBool, Default (VBool False))]"

definition Patient_fields :: "field list" where
  "Patient_fields =
    [(''user_id'', TOptional (TScalar SStr), Default VNull),
     (''first_name'', TScalar SStr, Required),
     (''last_name'', TScalar SStr, Required),
     (''gender'', TLiteral [''male'', ''female'', ''other''], Required),
     (''dob'', TOptional (TScalar SDate), Default VNull),
     (''blood_group'', TOptional (TScalar SStr), Default VNull),
     (''address'', TOptional (TScalar SStr), Default VNull),
     (''city'', TOptional (TScalar SStr), Default VNull),
     (''country'', TOptional (TScalar SStr), Default (VStr ''Ethiopia'')),
     (''emergency_contact'', TOptional (TScalar SStr), Default VNull),
     (''medical_history'', TOptional (TList (TScalar SStr)), Default (VList [])),
     (''allergies'', TOptional (TList (TScalar SStr)), Default (VList []))]"

definition Doctor_fields :: "field list" where
  "Doctor_fields =
    [(''user_id'', TOptional (TScalar SStr), Default VNull),
     (''first_name'', TScalar SStr, Required),
     (''last_name'', TScalar SStr, Required),
     (''specialty'', TScalar SStr, Required),
     (''bio'', TOptional (TScalar SStr), Default VNull),
     (''availability'', TOptional (TList (TScalar SStr)), Default (VList []))]"

definition Appointment_fields :: "field list" where
  "Appointment_fields =
    [(''patient_id'', TScalar SStr, Required),
     (''doctor_id'', TScalar SStr, Required),
     (''date'', TScalar SDate, Required),
     (''time_slot'', TScalar SStr, Required),
     (''status'', TLiteral [''scheduled'', ''completed'', ''cancelled''],
        Default (VStr ''scheduled'')),
     (''reason'', TOptional (TScalar SStr), Default VNull)]"

definition Medicine_fields :: "field list" where
  "Medicine_fields =
    [(''name'', TScalar SStr, Required),
     (''sku'', TOptional (TScalar SStr), Default VNull),
     (''description'', TOptional (TScalar SStr), Default VNull),
     (''quantity'', TScalar SInt, Default (VInt 0)),
     (''price'', TScalar SFloat, Default (VFloat 0)),
     (''expires_on'', TOptional (TScalar SDate), Default VNull)]"

definition Prescription_fields :: "field list" where
  "Prescription_fields =
    [(''patient_id'', TScalar SStr, Required),
     (''doctor_id'', TScalar SStr, Required),
     (''medicines'', TList TDict, Factory_list),
     (''notes'', TOptional (TScalar SStr), Default VNull)]"

definition LabTest_fields :: "field list" where
  "LabTest_fields =
    [(''patient_id'', TScalar SStr, Required),
     (''doctor_id'', TScalar SStr, Required),
     (''test_type'', TScalar SStr, Required),
     (''status'', TLiteral [''requested'', ''in_progress'', ''completed''],
        Default (VStr ''requested'')),
     (''result_url'', TOptional (TScalar SStr), Default VNull)]"

definition Invoice_fields :: "field list" where
  "Invoice_fields =
    [(''patient_id'', TScalar SStr, Required),
     (''amount'', TScalar SFloat, Required),
     (''items'', TList TDict, Factory_list),
     (''paid'', TScalar SBool, Default (VBool False)),
     (''method'', TOptional (TScalar SStr), Default VNull)]"

definition Vital_fields :: "field list" where
  "Vital_fields =
    [(''patient_id'', TScalar SStr, Required),
     (''temperature_c'', TOptional (TScalar SFloat), Default VNull),
     (''pulse_bpm'', TOptional (TScalar SInt), Default VNull),
     (''blood_pressure'', TOptional (TScalar SStr), Default VNull),
     (''respiration_rate'', TOptional (TScalar SInt), Default VNull),
     (''notes'', TOptional (TScalar SStr), Default VNull)]"

definition BedAssignment_fields :: "field list" where
  "BedAssignment_fields =
    [(''patient_id'', TScalar SStr, Required),
     (''ward'', TScalar SStr, Required),
     (''bed_number'', TScalar SStr, Required),
     (''assigned_on'', TScalar SDatetime, Factory_utcnow)]"

definition InventoryItem_fields :: "field list" where
  "InventoryItem_fields =
    [(''name'', TScalar SStr, Required),
     (''category'', TOptional (TScalar SStr), Default VNull),
     (''quantity'', TScalar SInt, Default (VInt 0)),
     (''threshold'', TScalar SInt, Default (VInt 5)),
     (''location'', TOptional (TScalar SStr), Default VNull)]"

definition MedicalRecord_fields :: "field list" where
  "MedicalRecord_fields =
    [(''patient_id'', TScalar SStr, Required),
     (''visit_date'', TScalar SDatetime, Factory_utcnow),
     (''complaints'', TOptional (TScalar SStr), Default VNull),
     (''diagnosis'', TOptional (TScalar SStr), Default VNull),
     (''treatment'', TOptional (TScalar SStr), Default VNull),
     (''documents'', TOptional (TList (TScalar SStr)), Default (VList []))]"

fun schema :: "kind \<Rightarrow> field list" where
  "schema User = User_fields"
| "schema Patient = Patient_fields"
| "schema Doctor = Doctor_fields"
| "schema Appointment = Appointment_fields"
| "schema Medicine = Medicine_fields"
| "schema Prescription = Prescription_fields"
| "schema LabTest = LabTest_fields"
| "schema Invoice = Invoice_fields"
| "schema Vital = Vital_fields"
| "schema BedAssignment = BedAssignment_fields"
| "schema InventoryItem = InventoryItem_fields"
| "schema MedicalRecord = MedicalRecord_fields"

section \<open>Validation of a payload against a schema\<close>

text \<open>
  Constructing a model from a payload visits the declared fields in order. An absent key
  takes the field's default, or is reported as missing when the field is required; a
  present value is checked against the annotation; keys that the model does not declare
  are ignored; all errors are collected, each with the name of its field.

  The conversion of a scalar (which inputs a \<^verbatim>\<open>str\<close>, \<^verbatim>\<open>int\<close>, \<^verbatim>\<open>float\<close>, \<^verbatim>\<open>bool\<close>,
  \<^verbatim>\<open>date\<close>, \<^verbatim>\<open>datetime\<close> or \<^verbatim>\<open>EmailStr\<close> field admits, and what it turns them into) is
  the validation library's and differs between its versions, so it is the parameter
  \<open>conv\<close> of the model. The structure around it is fixed: a \<^verbatim>\<open>Literal\<close> admits exactly
  the strings it lists, \<^verbatim>\<open>Optional[T]\<close> admits \<^verbatim>\<open>None\<close> and what \<open>T\<close> admits, \<^verbatim>\<open>List[T]\<close>
  a list whose elements \<open>T\<close> admits, \<^verbatim>\<open>dict\<close> an object.
\<close>

type_synonym conv = "scalar \<Rightarrow> val \<Rightarrow> val option"

datatype reason = Missing | NotInEnum | Invalid

type_synonym verror = "string \<times> reason"

fun check :: "conv \<Rightarrow> ftype \<Rightarrow> val \<Rightarrow> reason + val" where
  "check conv (TScalar s) v =
     (case conv s v of None \<Rightarrow> Inl Invalid | Some v' \<Rightarrow> Inr v')"
| "check conv (TLiteral vs) v =
     (case v of
        VStr s \<Rightarrow> if s \<in> set vs then Inr (VStr s) else Inl NotInEnum
      | _ \<Rightarrow> Inl NotInEnum)"
| "check conv (TOptional T) v =
     (if v = VNull then Inr VNull else check conv T v)"
| "check conv (TList T) v =
     (case v of
        VList xs \<Rightarrow>
          (let rs = map (check conv T) xs
           in if list_ex isl rs then Inl Invalid
              else Inr (VList (map projr rs)))
      | _ \<Rightarrow> Inl Invalid)"
| "check conv TDict v =
     (case v of VDict kvs \<Rightarrow> Inr (VDict kvs) | _ \<Rightarrow> Inl Invalid)"

fun default_value :: "timestamp \<Rightarrow> dflt \<Rightarrow> val option" where
  "default_value now Required = None"
| "default_value now (Default v) = Some v"
| "default_value now Factory_list = Some (VList [])"
| "default_value now Factory_utcnow = Some (VDatetime now)"

text \<open>
  \<open>now\<close> is what \<^verbatim>\<open>datetime.utcnow()\<close> returns when the model is constructed.
\<close>

fun validate_field :: "conv \<Rightarrow> timestamp \<Rightarrow> payload \<Rightarrow> field \<Rightarrow> verror + (string \<times> val)" where
  "validate_field conv now p (name, T, d) =
     (case p name of
        None \<Rightarrow>
          (case default_value now d of
             None \<Rightarrow> Inl (name, Missing)
           | Some v \<Rightarrow> Inr (name, v))
      | Some v \<Rightarrow>
          (case check conv T v of
             Inl r \<Rightarrow> Inl (name, r)
           | Inr v' \<Rightarrow> Inr (name, v')))"

fun lefts :: "('a + 'b) list \<Rightarrow> 'a list" where
  "lefts [] = []"
| "lefts (Inl a # xs) = a # lefts xs"
| "lefts (Inr b # xs) = lefts xs"

fun rights :: "('a + 'b) list \<Rightarrow> 'b list" where
  "rights [] = []"
| "rights (Inl a # xs) = rights xs"
| "rights (Inr b # xs) = b # rights xs"

definition validate :: "conv \<Rightarrow> timestamp \<Rightarrow> kind \<Rightarrow> payload \<Rightarrow> verror list + doc" where
  "validate conv now k p =
     (let rs = map (validate_field conv now p) (schema k)
      in if lefts rs = [] then Inr (rights rs) else Inl (lefts rs))"

text \<open>
  The least converter, for running the model on concrete requests: a value passes a
  scalar field when it already has the field's type, and is kept as it is. The library
  admits more (numeric strings for numbers, ISO strings for dates and timestamps,
  well-formed addresses for \<^verbatim>\<open>EmailStr\<close>); those conversions need a parser and are left
  to \<open>conv\<close>. On the inputs used below, strings for \<^verbatim>\<open>str\<close> fields, every version of the
  library behaves as \<open>conv_json\<close> does.
\<close>

definition conv_json :: conv where
  "conv_json s v =
     (case (s, v) of
        (SStr, VStr x) \<Rightarrow> Some (VStr x)
      | (SInt, VInt n) \<Rightarrow> Some (VInt n)
      | (SFloat, VFloat x) \<Rightarrow> Some (VFloat x)
      | (SBool, VBool b) \<Rightarrow> Some (VBool b)
      | (SDate, VDate d) \<Rightarrow> Some (VDate d)
      | (SDatetime, VDatetime t) \<Rightarrow> Some (VDatetime t)
      | _ \<Rightarrow> None)"

section \<open>The document gateway\<close>

text \<open>
  Modelled from the spec: the module \<^verbatim>\<open>database\<close> (\<^verbatim>\<open>db\<close>, \<^verbatim>\<open>create_document\<close>,
  \<^verbatim>\<open>get_documents\<close>) is imported by \<^verbatim>\<open>main.py\<close> and is not among the sources. The spec's
  Document Gateway gives its contract. The handle \<^verbatim>\<open>db\<close> is either unavailable (\<open>None\<close>)
  or a store, and its truth value in \<^verbatim>\<open>if db\<close> is its availability. A store holds, for
  each collection name, the inserted records in insertion order, each with the
  identifier it was given, and the next identifier to hand out.
\<close>

record database =
  colls :: "string \<Rightarrow> (nat \<times> doc) list"
  next_id :: nat

datatype store_error = StoreUnavailable

definition matches :: "doc \<Rightarrow> doc \<Rightarrow> bool" where
  \<comment> \<open>the record has every key of the filter, with the filter's value\<close>
  "matches filt d = list_all (\<lambda>(k, v). map_of d k = Some v) filt"

text \<open>
  Modelled from the spec: \<^verbatim>\<open>list(kind, filter, limit)\<close> returns up to \<open>limit\<close> records of
  the collection whose fields match all key/value pairs of the filter; the empty filter
  matches all; no match gives the empty sequence; an unavailable store is an error.
\<close>

definition get_documents ::
  "string \<Rightarrow> doc \<Rightarrow> nat \<Rightarrow> database option \<Rightarrow> store_error + doc list" where
  "get_documents collection_name filter_dict limit db =
     (case db of
        None \<Rightarrow> Inl StoreUnavailable
      | Some st \<Rightarrow>
          Inr (take limit (filter (matches filter_dict) (map snd (colls st collection_name)))))"

text \<open>
  Modelled from the spec: \<^verbatim>\<open>insert(kind, record)\<close> persists the record into the
  collection, assigns creation and update timestamps if not already set, and returns a
  newly generated identifier; an unavailable store is an error and nothing is stored.
\<close>

definition with_timestamps :: "timestamp \<Rightarrow> doc \<Rightarrow> doc" where
  "with_timestamps now d =
     (let d1 = (if map_of d ''created_at'' = None
                then d @ [(''created_at'', VDatetime now)] else d)
      in if map_of d1 ''updated_at'' = None
         then d1 @ [(''updated_at'', VDatetime now)] else d1)"

definition create_document ::
  "string \<Rightarrow> doc \<Rightarrow> timestamp \<Rightarrow> database option \<Rightarrow> store_error + (nat \<times> database)" where
  "create_document collection_name data now db =
     (case db of
        None \<Rightarrow> Inl StoreUnavailable
      | Some st \<Rightarrow>
          Inr (next_id st,
               st\<lparr>colls := (colls st)
                        (collection_name :=
                           colls st collection_name @ [(next_id st, with_timestamps now data)]),
                  next_id := Suc (next_id st)\<rparr>))"

section \<open>The handlers of \<^verbatim>\<open>main.py\<close>\<close>

text \<open>
  What a request ends in: the handler's return value (status 200), an \<^verbatim>\<open>HTTPException\<close>
  with its status code and detail, the rejection of the body by validation before the
  handler runs (status 422, with the field errors), or an error of the gateway that no
  handler catches (status 500).
\<close>

datatype response =
    Ok val
  | HTTPException nat string
  | Unprocessable "verror list"
  | Uncaught store_error

record LoginRequest =
  email :: string
  password :: string

record SignupRequest = LoginRequest +
  full_name :: string
  role :: string

definition login :: "LoginRequest \<Rightarrow> database option \<Rightarrow> response" where
  "login payload db =
     (case (if db \<noteq> None
            then get_documents ''user'' [(''email'', VStr (email payload))] 1 db
            else Inr []) of
        Inl e \<Rightarrow> Uncaught e
      | Inr [] \<Rightarrow> HTTPException 401 ''Invalid credentials''
      | Inr (user # _) \<Rightarrow>
          Ok (VDict
               [(''message'', VStr ''Logged in''),
                (''role'', get user ''role''),
                (''user'', VDict [(''email'', get user ''email''),
                                  (''full_name'', get user ''full_name'')])]))"

text \<open>
  \<open>t_created\<close> and \<open>t_updated\<close> are the two readings of \<^verbatim>\<open>datetime.utcnow()\<close> in the
  handler, \<open>t_insert\<close> the gateway's own. \<open>signup_doc\<close> is the \<^verbatim>\<open>dict\<close> the handler
  builds from the request; the handler returns the response and the store it leaves
  behind.
\<close>

definition signup_doc :: "SignupRequest \<Rightarrow> timestamp \<Rightarrow> timestamp \<Rightarrow> doc" where
  "signup_doc payload t_created t_updated =
     [(''email'', VStr (email payload)),
      (''password_hash'', VStr (password payload)),
      (''full_name'', VStr (full_name payload)),
      (''role'', VStr (role payload)),
      (''is_active'', VBool True),
      (''verified'', VBool False),
      (''created_at'', VDatetime t_created),
      (''updated_at'', VDatetime t_updated)]"

definition signup ::
  "SignupRequest \<Rightarrow> timestamp \<Rightarrow> timestamp \<Rightarrow> timestamp \<Rightarrow> database option
     \<Rightarrow> response \<times> database option" where
  "signup payload t_created t_updated t_insert db =
     (if db = None then (HTTPException 500 ''Database not available'', db)
      else case get_documents ''user'' [(''email'', VStr (email payload))] 1 db of
        Inl e \<Rightarrow> (Uncaught e, db)
      | Inr (_ # _) \<Rightarrow> (HTTPException 400 ''Email already registered'', db)
      | Inr [] \<Rightarrow>
          (case create_document ''user'' (signup_doc payload t_created t_updated) t_insert db of
             Inl e \<Rightarrow> (Uncaught e, db)
           | Inr (user_id, st') \<Rightarrow>
               (Ok (VDict [(''message'', VStr ''Signup successful''),
                           (''user_id'', VId user_id)]),
                Some st')))"

text \<open>
  The collection each kind is written to and read from, as the handlers spell it.
\<close>

fun collection :: "kind \<Rightarrow> string" where
  "collection User = ''user''"
| "collection Patient = ''patient''"
| "collection Doctor = ''doctor''"
| "collection Appointment = ''appointment''"
| "collection Medicine = ''medicine''"
| "collection Prescription = ''prescription''"
| "collection LabTest = ''labtest''"
| "collection Invoice = ''invoice''"
| "collection Vital = ''vital''"
| "collection BedAssignment = ''bedassignment''"
| "collection InventoryItem = ''inventoryitem''"
| "collection MedicalRecord = ''medicalrecord''"

text \<open>
  The eleven creating handlers (\<^verbatim>\<open>create_patient\<close>, \<^verbatim>\<open>create_doctor\<close>, ...,
  \<^verbatim>\<open>add_medical_record\<close>) have one shape: the handler proper receives the validated
  model and hands it to \<^verbatim>\<open>create_document\<close>; the framework builds the model from the body
  first and answers 422 itself when that fails. \<open>t_model\<close> is the clock when the model
  is built, \<open>t_insert\<close> when the gateway stores it. \<^verbatim>\<open>main.py\<close> has no such handler for
  \<open>User\<close>.
\<close>

definition create_handler ::
  "kind \<Rightarrow> doc \<Rightarrow> timestamp \<Rightarrow> database option \<Rightarrow> response \<times> database option" where
  "create_handler k model t_insert db =
     (case create_document (collection k) model t_insert db of
        Inl e \<Rightarrow> (Uncaught e, db)
      | Inr (new_id, st') \<Rightarrow> (Ok (VDict [(''id'', VId new_id)]), Some st'))"

definition post_resource ::
  "conv \<Rightarrow> kind \<Rightarrow> payload \<Rightarrow> timestamp \<Rightarrow> timestamp \<Rightarrow> database option
     \<Rightarrow> response \<times> database option" where
  "post_resource conv k body t_model t_insert db =
     (case validate conv t_model k body of
        Inl errs \<Rightarrow> (Unprocessable errs, db)
      | Inr model \<Rightarrow> create_handler k model t_insert db)"

definition create_patient where "create_patient conv = post_resource conv Patient"
definition create_doctor where "create_doctor conv = post_resource conv Doctor"
definition create_appointment where "create_appointment conv = post_resource conv Appointment"
definition add_medicine where "add_medicine conv = post_resource conv Medicine"
definition add_prescription where "add_prescription conv = post_resource conv Prescription"
definition add_lab_test where "add_lab_test conv = post_resource conv LabTest"
definition add_invoice where "add_invoice conv = post_resource conv Invoice"
definition add_vital where "add_vital conv = post_resource conv Vital"
definition add_bed_assignment where "add_bed_assignment conv = post_resource conv BedAssignment"
definition add_inventory_item where "add_inventory_item conv = post_resource conv InventoryItem"
definition add_medical_record where "add_medical_record conv = post_resource conv MedicalRecord"

text \<open>
  \<^verbatim>\<open>list_medical_records\<close>: the query parameter is absent (\<open>None\<close>) or a string; the
  filter is built by the truth value of the parameter, so the empty string builds the
  empty filter.
\<close>

definition records_filter :: "string option \<Rightarrow> doc" where
  "records_filter patient_id =
     (case patient_id of
        None \<Rightarrow> []
      | Some x \<Rightarrow> if x \<noteq> [] then [(''patient_id'', VStr x)] else [])"

definition list_medical_records :: "string option \<Rightarrow> database option \<Rightarrow> response" where
  "list_medical_records patient_id db =
     (case get_documents ''medicalrecord'' (records_filter patient_id) 200 db of
        Inl e \<Rightarrow> Uncaught e
      | Inr ds \<Rightarrow> Ok (VList (map VDict ds)))"

section \<open>Stores used in statements\<close>

text \<open>
  A store with nothing in it, and the test whether the \<open>user\<close> collection of a store
  holds a record with a given e-mail address.
\<close>

definition empty_db :: database where
  "empty_db = \<lparr>colls = \<lambda>_. [], next_id = 0\<rparr>"

definition user_exists :: "database \<Rightarrow> string \<Rightarrow> bool" where
  "user_exists st e =
     list_ex (\<lambda>d. map_of d ''email'' = Some (VStr e)) (map snd (colls st ''user''))"

section \<open>Facts about validation\<close>

lemmas fields_defs =
  User_fields_def Patient_fields_def Doctor_fields_def Appointment_fields_def
  Medicine_fields_def Prescription_fields_def LabTest_fields_def Invoice_fields_def
  Vital_fields_def BedAssignment_fields_def InventoryItem_fields_def
  MedicalRecord_fields_def

lemma lefts_map_mem: "x \<in> set xs \<Longrightarrow> g x = Inl e \<Longrightarrow> e \<in> set (lefts (map g xs))"
proof (induction xs)
  case Nil
  then show ?case by simp
next
  case (Cons y ys)
  show ?case
  proof (cases "g y")
    case (Inl a)
    with Cons show ?thesis by auto
  next
    case (Inr b)
    with Cons show ?thesis by auto
  qed
qed

lemma validate_error_mem:
  assumes "fld \<in> set (schema k)" and "validate_field conv now p fld = Inl e"
  shows "\<exists>errs. validate conv now k p = Inl errs \<and> e \<in> set errs"
proof -
  have "e \<in> set (lefts (map (validate_field conv now p) (schema k)))"
    using assms by (rule lefts_map_mem)
  then show ?thesis
    by (auto simp: validate_def Let_def)
qed

lemma validate_field_name:
  "validate_field conv now p (g, T, d) = Inr (n, w) \<Longrightarrow> n = g"
  by (auto split: option.splits sum.splits)

lemma rights_default:
  assumes "distinct (map fst fs)" and "(f, T, d) \<in> set fs" and "p f = None"
    and "default_value now d = Some v"
    and "lefts (map (validate_field conv now p) fs) = []"
  shows "map_of (rights (map (validate_field conv now p) fs)) f = Some v"
  using assms
proof (induction fs)
  case Nil
  then show ?case by simp
next
  case (Cons a fs)
  obtain g T' d' where a: "a = (g, T', d')" by (cases a)
  show ?case
  proof (cases "validate_field conv now p a")
    case (Inl e)
    with Cons.prems(5) show ?thesis by simp
  next
    case (Inr r)
    obtain n w where r: "r = (n, w)" by (cases r)
    have n: "n = g" using Inr a r validate_field_name by blast
    show ?thesis
    proof (cases "g = f")
      case True
      with Cons.prems(1,2) a have "(T', d') = (T, d)"
        by (auto simp: image_iff)
      with True a Cons.prems(3,4) Inr show ?thesis by auto
    next
      case False
      with Cons.prems(2) a have mem: "(f, T, d) \<in> set fs" by auto
      from Cons.prems(1) have dist: "distinct (map fst fs)" by simp
      from Cons.prems(5) Inr have "lefts (map (validate_field conv now p) fs) = []" by simp
      from Cons.IH [OF dist mem Cons.prems(3,4) this] False Inr r n
      show ?thesis by simp
    qed
  qed
qed

lemma schema_distinct: "distinct (map fst (schema k))"
  by (cases k) (simp_all add: fields_defs)

lemma validate_default:
  assumes "(f, T, d) \<in> set (schema k)" and "p f = None"
    and "default_value now d = Some v"
    and "validate conv now k p = Inr model"
  shows "map_of model f = Some v"
proof -
  from assms(4) have l: "lefts (map (validate_field conv now p) (schema k)) = []"
    and m: "model = rights (map (validate_field conv now p) (schema k))"
    by (auto simp: validate_def Let_def split: if_splits)
  from rights_default [OF schema_distinct assms(1-3) l] m show ?thesis by simp
qed

lemma validate_field_clock:
  "d = Factory_utcnow \<longrightarrow> p f \<noteq> None \<Longrightarrow>
   validate_field conv t1 p (f, T, d) = validate_field conv t2 p (f, T, d)"
  by (cases d; cases "p f") auto

lemma validate_clock:
  assumes "\<forall>(f, T, d) \<in> set (schema k). d = Factory_utcnow \<longrightarrow> p f \<noteq> None"
  shows "validate conv t1 k p = validate conv t2 k p"
proof -
  have eq: "map (validate_field conv t1 p) (schema k) = map (validate_field conv t2 p) (schema k)"
  proof (rule map_cong [OF refl])
    fix fld assume mem: "fld \<in> set (schema k)"
    obtain f T d where fld: "fld = (f, T, d)" by (cases fld)
    from assms mem fld have "d = Factory_utcnow \<longrightarrow> p f \<noteq> None" by blast
    then show "validate_field conv t1 p fld = validate_field conv t2 p fld"
      unfolding fld by (rule validate_field_clock)
  qed
  show ?thesis unfolding validate_def eq by (rule refl)
qed

lemma check_literal:
  "check conv (TLiteral vs) v = Inr w \<longleftrightarrow> v = w \<and> w \<in> VStr ` set vs"
  by (cases v) auto

text \<open>
  What a creating handler stores is a model that validation produced: the store changes
  only by one record appended to the kind's collection, the validated model with the
  gateway's timestamps.
\<close>

lemma post_resource_persists_validated:
  assumes "post_resource conv k body t_model t_insert (Some st) = (r, db')"
    and "db' \<noteq> Some st"
  shows "\<exists>model. validate conv t_model k body = Inr model
           \<and> db' = Some (st\<lparr>colls := (colls st)
                    (collection k :=
                       colls st (collection k) @ [(next_id st, with_timestamps t_insert model)]),
                  next_id := Suc (next_id st)\<rparr>)"
  using assms
  by (auto simp: post_resource_def create_handler_def create_document_def
           split: sum.splits)

section \<open>Facts about the gateway\<close>

lemma matches_single: "matches [(k, v)] d \<longleftrightarrow> map_of d k = Some v"
  by (simp add: matches_def)

lemma filter_single_empty:
  "filter (matches [(k, v)]) ds = [] \<longleftrightarrow> \<not> list_ex (\<lambda>d. map_of d k = Some v) ds"
  by (induction ds) (auto simp: matches_def)

lemma get_documents_user_none:
  assumes "\<not> user_exists st e"
  shows "get_documents ''user'' [(''email'', VStr e)] 1 (Some st) = Inr []"
  using assms by (simp add: get_documents_def filter_single_empty user_exists_def)

lemma get_documents_user_some:
  assumes "user_exists st e"
  shows "\<exists>u. get_documents ''user'' [(''email'', VStr e)] 1 (Some st) = Inr [u]
           \<and> u \<in> set (map snd (colls st ''user'')) \<and> map_of u ''email'' = Some (VStr e)"
proof -
  let ?ms = "filter (matches [(''email'', VStr e)]) (map snd (colls st ''user''))"
  from assms have "?ms \<noteq> []" by (simp add: filter_single_empty user_exists_def)
  then obtain u us where ms: "?ms = u # us" by (cases ?ms) auto
  then have "u \<in> set ?ms" by simp
  then have "u \<in> set (map snd (colls st ''user''))" and "map_of u ''email'' = Some (VStr e)"
    by (auto simp: matches_def)
  moreover have "get_documents ''user'' [(''email'', VStr e)] 1 (Some st) = Inr [u]"
    by (simp add: get_documents_def ms)
  ultimately show ?thesis by blast
qed

lemma signup_fresh:
  assumes "\<not> user_exists st (email req)"
  shows "signup req t1 t2 t3 (Some st) =
           (Ok (VDict [(''message'', VStr ''Signup successful''), (''user_id'', VId (next_id st))]),
            Some (st\<lparr>colls := (colls st)
                      (''user'' := colls st ''user'' @ [(next_id st, signup_doc req t1 t2)]),
                    next_id := Suc (next_id st)\<rparr>))"
  using get_documents_user_none [OF assms]
  by (simp add: signup_def create_document_def with_timestamps_def signup_doc_def)

lemma signup_duplicate:
  assumes "user_exists st (email req)"
  shows "signup req t1 t2 t3 (Some st) = (HTTPException 400 ''Email already registered'', Some st)"
proof -
  from get_documents_user_some [OF assms] obtain u where
    "get_documents ''user'' [(''email'', VStr (email req))] 1 (Some st) = Inr [u]" by blast
  then show ?thesis by (simp add: signup_def)
qed

section \<open>The claims\<close>

text \<open>
  C1. Every document that gets persisted satisfies its kind's schema; in particular a
  user document created by signup has a role of the \<open>User\<close> enumeration. The signup
  handler does not keep this: it takes the role as a free string and stores it without
  building a \<open>User\<close> model. Signing up with the role \<open>superuser\<close> on an empty store
  succeeds and leaves a user document whose role is \<open>superuser\<close>, which validation
  against \<open>User\<close> rejects for the role, whatever the scalar converter and the clock.
\<close>

theorem signup_persists_role_outside_enumeration:
  "signup \<lparr>email = ''eve@example.org'', password = ''pw'', full_name = ''Eve'',
           role = ''superuser''\<rparr> 1 2 3 (Some empty_db) =
     (Ok (VDict [(''message'', VStr ''Signup successful''), (''user_id'', VId 0)]),
      Some \<lparr>colls = (\<lambda>_. [])(''user'' :=
               [(0, [(''email'', VStr ''eve@example.org''),
                     (''password_hash'', VStr ''pw''),
                     (''full_name'', VStr ''Eve''),
                     (''role'', VStr ''superuser''),
                     (''is_active'', VBool True),
                     (''verified'', VBool False),
                     (''created_at'', VDatetime 1),
                     (''updated_at'', VDatetime 2)])]),
             next_id = 1\<rparr>)
   \<and> (''role'', TLiteral [''admin'', ''doctor'', ''nurse'', ''pharmacist'', ''lab'', ''patient''],
        Required) \<in> set (schema User)
   \<and> ''superuser'' \<notin> set [''admin'', ''doctor'', ''nurse'', ''pharmacist'', ''lab'', ''patient'']
   \<and> (\<exists>errs. validate conv now User
                (map_of [(''email'', VStr ''eve@example.org''),
                         (''password_hash'', VStr ''pw''),
                         (''full_name'', VStr ''Eve''),
                         (''role'', VStr ''superuser''),
                         (''is_active'', VBool True),
                         (''verified'', VBool False),
                         (''created_at'', VDatetime 1),
                         (''updated_at'', VDatetime 2)]) = Inl errs
              \<and> (''role'', NotInEnum) \<in> set errs)"
proof -
  let ?d = "[(''email'', VStr ''eve@example.org''),
             (''password_hash'', VStr ''pw''),
             (''full_name'', VStr ''Eve''),
             (''role'', VStr ''superuser''),
             (''is_active'', VBool True),
             (''verified'', VBool False),
             (''created_at'', VDatetime 1),
             (''updated_at'', VDatetime 2)]"
  have run: "signup \<lparr>email = ''eve@example.org'', password = ''pw'', full_name = ''Eve'',
           role = ''superuser''\<rparr> 1 2 3 (Some empty_db) =
     (Ok (VDict [(''message'', VStr ''Signup successful''), (''user_id'', VId 0)]),
      Some \<lparr>colls = (\<lambda>_. [])(''user'' := [(0, ?d)]), next_id = 1\<rparr>)"
    by (simp add: signup_def get_documents_def create_document_def with_timestamps_def
          signup_doc_def empty_db_def)
  have mem: "(''role'',
       TLiteral [''admin'', ''doctor'', ''nurse'', ''pharmacist'', ''lab'', ''patient''],
       Required) \<in> set (schema User)"
    by (simp add: User_fields_def)
  have out: "''superuser'' \<notin> set [''admin'', ''doctor'', ''nurse'', ''pharmacist'', ''lab'', ''patient'']"
    by simp
  have "validate_field conv now (map_of ?d)
          (''role'',
           TLiteral [''admin'', ''doctor'', ''nurse'', ''pharmacist'', ''lab'', ''patient''],
           Required) = Inl (''role'', NotInEnum)"
    by simp
  from validate_error_mem [OF mem this] run mem out show ?thesis by blast
qed

text \<open>
  C2. For every resource kind and every payload that lacks one of the kind's required
  fields, validation fails with an error that names the missing field, and the request
  inserts nothing: the store is left as it was.
\<close>

theorem missing_required_field_rejected:
  assumes "(f, T, Required) \<in> set (schema k)" and "body f = None"
  shows "\<exists>errs. validate conv t_model k body = Inl errs \<and> (f, Missing) \<in> set errs
           \<and> post_resource conv k body t_model t_insert db = (Unprocessable errs, db)"
proof -
  have "validate_field conv t_model body (f, T, Required) = Inl (f, Missing)"
    using assms(2) by simp
  from validate_error_mem [OF assms(1) this]
  show ?thesis by (auto simp: post_resource_def)
qed

theorem missing_required_field_rejected_witness:
  "(''first_name'', TScalar SStr, Required) \<in> set (schema Patient)
   \<and> [''last_name'' \<mapsto> VStr ''Kebede'', ''gender'' \<mapsto> VStr ''male''] ''first_name'' = None
   \<and> (\<exists>errs. validate conv_json 0 Patient
          [''last_name'' \<mapsto> VStr ''Kebede'', ''gender'' \<mapsto> VStr ''male''] = Inl errs
        \<and> (''first_name'', Missing) \<in> set errs
        \<and> post_resource conv_json Patient
             [''last_name'' \<mapsto> VStr ''Kebede'', ''gender'' \<mapsto> VStr ''male''] 0 0
             (Some empty_db)
           = (Unprocessable errs, Some empty_db))"
proof -
  have a: "(''first_name'', TScalar SStr, Required) \<in> set (schema Patient)"
    by (simp add: Patient_fields_def)
  have b: "[''last_name'' \<mapsto> VStr ''Kebede'', ''gender'' \<mapsto> VStr ''male''] ''first_name'' = None"
    by simp
  from missing_required_field_rejected
         [where f = "''first_name''" and T = "TScalar SStr" and k = Patient
            and body = "[''last_name'' \<mapsto> VStr ''Kebede'', ''gender'' \<mapsto> VStr ''male'']"
            and conv = conv_json and t_model = 0 and t_insert = 0
            and db = "Some empty_db", OF a b] a b
  show ?thesis by blast
qed

text \<open>
  C3. Signup with an e-mail address that no user record has succeeds and returns the
  identifier of the one record it appends to the \<open>user\<close> collection; a signup with the
  same address after it fails with status 400 and leaves the store unchanged.
\<close>

theorem signup_fresh_then_duplicate:
  assumes "\<not> user_exists st (email req)" and "email req2 = email req"
  shows "\<exists>st'. signup req t1 t2 t3 (Some st) =
           (Ok (VDict [(''message'', VStr ''Signup successful''),
                       (''user_id'', VId (next_id st))]),
            Some st')
         \<and> colls st' ''user'' = colls st ''user'' @ [(next_id st, signup_doc req t1 t2)]
         \<and> signup req2 t4 t5 t6 (Some st') =
             (HTTPException 400 ''Email already registered'', Some st')"
proof -
  let ?st' = "st\<lparr>colls := (colls st)
                      (''user'' := colls st ''user'' @ [(next_id st, signup_doc req t1 t2)]),
                 next_id := Suc (next_id st)\<rparr>"
  have "user_exists ?st' (email req2)"
    using assms(2) by (simp add: signup_doc_def user_exists_def)
  from signup_duplicate [OF this] signup_fresh [OF assms(1)]
  show ?thesis by auto
qed

theorem signup_fresh_then_duplicate_witness:
  "\<not> user_exists empty_db ''abebe@example.org''
   \<and> (\<exists>st'. signup \<lparr>email = ''abebe@example.org'', password = ''pw1'',
                     full_name = ''Abebe Kebede'', role = ''patient''\<rparr> 1 2 3 (Some empty_db) =
           (Ok (VDict [(''message'', VStr ''Signup successful''), (''user_id'', VId 0)]),
            Some st')
         \<and> length (colls st' ''user'') = 1
         \<and> signup \<lparr>email = ''abebe@example.org'', password = ''pw2'',
                    full_name = ''Someone Else'', role = ''doctor''\<rparr> 4 5 6 (Some st') =
             (HTTPException 400 ''Email already registered'', Some st'))"
proof -
  have a: "\<not> user_exists empty_db ''abebe@example.org''"
    by (simp add: user_exists_def empty_db_def)
  from signup_fresh_then_duplicate
         [where st = empty_db
            and req = "\<lparr>email = ''abebe@example.org'', password = ''pw1'',
                        full_name = ''Abebe Kebede'', role = ''patient''\<rparr>"
            and ?req2.0 = "\<lparr>email = ''abebe@example.org'', password = ''pw2'',
                         full_name = ''Someone Else'', role = ''doctor''\<rparr>"
            and ?t1.0 = 1 and ?t2.0 = 2 and ?t3.0 = 3 and ?t4.0 = 4 and ?t5.0 = 5 and ?t6.0 = 6]
    a
  show ?thesis by (auto simp: empty_db_def)
qed

text \<open>
  C4. Login with an e-mail address that no user record has answers 401, with no user
  object; login with an address that a user record has answers 200 with that record's
  role, e-mail address and full name, for every value of the password, which is never
  compared.
\<close>

theorem login_by_email_only:
  "(\<not> user_exists st (email req) \<longrightarrow>
      (\<forall>pw. login (req\<lparr>password := pw\<rparr>) (Some st) =
             HTTPException 401 ''Invalid credentials''))
   \<and> (user_exists st (email req) \<longrightarrow>
      (\<exists>u. u \<in> set (map snd (colls st ''user''))
           \<and> map_of u ''email'' = Some (VStr (email req))
           \<and> (\<forall>pw. login (req\<lparr>password := pw\<rparr>) (Some st) =
                  Ok (VDict [(''message'', VStr ''Logged in''),
                             (''role'', get u ''role''),
                             (''user'', VDict [(''email'', VStr (email req)),
                                               (''full_name'', get u ''full_name'')])]))))"
proof (intro conjI impI)
  assume "\<not> user_exists st (email req)"
  from get_documents_user_none [OF this]
  show "\<forall>pw. login (req\<lparr>password := pw\<rparr>) (Some st) = HTTPException 401 ''Invalid credentials''"
    by (simp add: login_def)
next
  assume "user_exists st (email req)"
  from get_documents_user_some [OF this]
  obtain u where g: "get_documents ''user'' [(''email'', VStr (email req))] 1 (Some st) = Inr [u]"
    and u: "u \<in> set (map snd (colls st ''user''))" "map_of u ''email'' = Some (VStr (email req))"
    by blast
  from u(2) have "get u ''email'' = VStr (email req)" by (simp add: get_def)
  with g have "\<forall>pw. login (req\<lparr>password := pw\<rparr>) (Some st) =
                   Ok (VDict [(''message'', VStr ''Logged in''),
                              (''role'', get u ''role''),
                              (''user'', VDict [(''email'', VStr (email req)),
                                                (''full_name'', get u ''full_name'')])])"
    by (simp add: login_def)
  with u show "\<exists>u. u \<in> set (map snd (colls st ''user''))
             \<and> map_of u ''email'' = Some (VStr (email req))
             \<and> (\<forall>pw. login (req\<lparr>password := pw\<rparr>) (Some st) =
                   Ok (VDict [(''message'', VStr ''Logged in''),
                              (''role'', get u ''role''),
                              (''user'', VDict [(''email'', VStr (email req)),
                                                (''full_name'', get u ''full_name'')])]))"
    by blast
qed

theorem login_by_email_only_witness:
  "\<not> user_exists empty_db ''abebe@example.org''
   \<and> (\<forall>pw. login \<lparr>email = ''abebe@example.org'', password = pw\<rparr> (Some empty_db) =
             HTTPException 401 ''Invalid credentials'')
   \<and> user_exists
        \<lparr>colls = (\<lambda>_. [])(''user'' :=
            [(0, [(''email'', VStr ''abebe@example.org''), (''password_hash'', VStr ''pw1''),
                  (''full_name'', VStr ''Abebe Kebede''), (''role'', VStr ''patient'')])]),
         next_id = 1\<rparr> ''abebe@example.org''
   \<and> (\<forall>pw. login \<lparr>email = ''abebe@example.org'', password = pw\<rparr>
          (Some \<lparr>colls = (\<lambda>_. [])(''user'' :=
            [(0, [(''email'', VStr ''abebe@example.org''), (''password_hash'', VStr ''pw1''),
                  (''full_name'', VStr ''Abebe Kebede''), (''role'', VStr ''patient'')])]),
                 next_id = 1\<rparr>) =
          Ok (VDict [(''message'', VStr ''Logged in''),
                     (''role'', VStr ''patient''),
                     (''user'', VDict [(''email'', VStr ''abebe@example.org''),
                                       (''full_name'', VStr ''Abebe Kebede'')])]))"
proof -
  let ?st = "\<lparr>colls = (\<lambda>_. [])(''user'' :=
            [(0, [(''email'', VStr ''abebe@example.org''), (''password_hash'', VStr ''pw1''),
                  (''full_name'', VStr ''Abebe Kebede''), (''role'', VStr ''patient'')])]),
         next_id = 1\<rparr>"
  let ?req = "\<lparr>email = ''abebe@example.org'', password = ''x''\<rparr>"
  have a: "\<not> user_exists empty_db (email ?req)"
    by (simp add: user_exists_def empty_db_def)
  have b: "user_exists ?st (email ?req)"
    by (simp add: user_exists_def)
  from login_by_email_only [of empty_db ?req] a
  have c: "\<forall>pw. login \<lparr>email = ''abebe@example.org'', password = pw\<rparr> (Some empty_db) =
             HTTPException 401 ''Invalid credentials''"
    by simp
  from login_by_email_only [of ?st ?req] b
  have d: "\<forall>pw. login \<lparr>email = ''abebe@example.org'', password = pw\<rparr> (Some ?st) =
          Ok (VDict [(''message'', VStr ''Logged in''),
                     (''role'', VStr ''patient''),
                     (''user'', VDict [(''email'', VStr ''abebe@example.org''),
                                       (''full_name'', VStr ''Abebe Kebede'')])])"
    by (auto simp: get_def)
  from a b c d show ?thesis by simp
qed

text \<open>
  C5. Validation is a function of the payload and of the clock at the moment the model
  is built, not of the payload alone. Its result does not depend on the clock for the
  ten kinds without a timestamp default, and for a \<open>BedAssignment\<close> payload that gives
  \<open>assigned_on\<close> and a \<open>MedicalRecord\<close> payload that gives \<open>visit_date\<close>. When such a
  payload leaves the field out and validates, the field of the record is the clock
  reading, so two validations of the same payload at different times differ in it.
\<close>

theorem validate_deterministic_up_to_clock:
  "((k = BedAssignment \<longrightarrow> p ''assigned_on'' \<noteq> None)
      \<and> (k = MedicalRecord \<longrightarrow> p ''visit_date'' \<noteq> None)
     \<longrightarrow> validate conv t1 k p = validate conv t2 k p)
   \<and> (p ''assigned_on'' = None \<and> validate conv t BedAssignment p = Inr m
     \<longrightarrow> map_of m ''assigned_on'' = Some (VDatetime t))
   \<and> (p ''visit_date'' = None \<and> validate conv t MedicalRecord p = Inr m
     \<longrightarrow> map_of m ''visit_date'' = Some (VDatetime t))"
proof (intro conjI impI)
  assume a: "(k = BedAssignment \<longrightarrow> p ''assigned_on'' \<noteq> None)
      \<and> (k = MedicalRecord \<longrightarrow> p ''visit_date'' \<noteq> None)"
  have "\<forall>(f, T, d) \<in> set (schema k). d = Factory_utcnow \<longrightarrow> p f \<noteq> None"
    using a by (cases k) (simp_all add: fields_defs)
  then show "validate conv t1 k p = validate conv t2 k p"
    by (rule validate_clock)
next
  assume a: "p ''assigned_on'' = None \<and> validate conv t BedAssignment p = Inr m"
  have "(''assigned_on'', TScalar SDatetime, Factory_utcnow) \<in> set (schema BedAssignment)"
    by (simp add: BedAssignment_fields_def)
  from validate_default [OF this, of p t "VDatetime t" conv m] a
  show "map_of m ''assigned_on'' = Some (VDatetime t)" by simp
next
  assume a: "p ''visit_date'' = None \<and> validate conv t MedicalRecord p = Inr m"
  have "(''visit_date'', TScalar SDatetime, Factory_utcnow) \<in> set (schema MedicalRecord)"
    by (simp add: MedicalRecord_fields_def)
  from validate_default [OF this, of p t "VDatetime t" conv m] a
  show "map_of m ''visit_date'' = Some (VDatetime t)" by simp
qed

theorem validate_deterministic_up_to_clock_witness:
  "([''patient_id'' \<mapsto> VStr ''p1'', ''ward'' \<mapsto> VStr ''A'', ''bed_number'' \<mapsto> VStr ''12'',
     ''assigned_on'' \<mapsto> VDatetime 5] ''assigned_on'' \<noteq> None
    \<and> validate conv_json 0 BedAssignment
         [''patient_id'' \<mapsto> VStr ''p1'', ''ward'' \<mapsto> VStr ''A'', ''bed_number'' \<mapsto> VStr ''12'',
          ''assigned_on'' \<mapsto> VDatetime 5]
       = validate conv_json 1 BedAssignment
         [''patient_id'' \<mapsto> VStr ''p1'', ''ward'' \<mapsto> VStr ''A'', ''bed_number'' \<mapsto> VStr ''12'',
          ''assigned_on'' \<mapsto> VDatetime 5])
   \<and> ([''patient_id'' \<mapsto> VStr ''p1'', ''ward'' \<mapsto> VStr ''A'', ''bed_number'' \<mapsto> VStr ''12'']
        ''assigned_on'' = None
      \<and> validate conv_json 7 BedAssignment
           [''patient_id'' \<mapsto> VStr ''p1'', ''ward'' \<mapsto> VStr ''A'', ''bed_number'' \<mapsto> VStr ''12'']
         = Inr [(''patient_id'', VStr ''p1''), (''ward'', VStr ''A''),
                (''bed_number'', VStr ''12''), (''assigned_on'', VDatetime 7)]
      \<and> map_of [(''patient_id'', VStr ''p1''), (''ward'', VStr ''A''),
                 (''bed_number'', VStr ''12''), (''assigned_on'', VDatetime 7)] ''assigned_on''
         = Some (VDatetime 7))
   \<and> ([''patient_id'' \<mapsto> VStr ''p1''] ''visit_date'' = None
      \<and> validate conv_json 9 MedicalRecord [''patient_id'' \<mapsto> VStr ''p1'']
         = Inr [(''patient_id'', VStr ''p1''), (''visit_date'', VDatetime 9),
                (''complaints'', VNull), (''diagnosis'', VNull), (''treatment'', VNull),
                (''documents'', VList [])]
      \<and> map_of [(''patient_id'', VStr ''p1''), (''visit_date'', VDatetime 9),
                 (''complaints'', VNull), (''diagnosis'', VNull), (''treatment'', VNull),
                 (''documents'', VList [])] ''visit_date''
         = Some (VDatetime 9))"
proof -
  let ?full = "[''patient_id'' \<mapsto> VStr ''p1'', ''ward'' \<mapsto> VStr ''A'',
                ''bed_number'' \<mapsto> VStr ''12'', ''assigned_on'' \<mapsto> VDatetime 5]"
  let ?bed = "[''patient_id'' \<mapsto> VStr ''p1'', ''ward'' \<mapsto> VStr ''A'',
               ''bed_number'' \<mapsto> VStr ''12'']"
  let ?bedm = "[(''patient_id'', VStr ''p1''), (''ward'', VStr ''A''),
                (''bed_number'', VStr ''12''), (''assigned_on'', VDatetime 7)]"
  let ?rec = "[''patient_id'' \<mapsto> VStr ''p1'']"
  let ?recm = "[(''patient_id'', VStr ''p1''), (''visit_date'', VDatetime 9),
                (''complaints'', VNull), (''diagnosis'', VNull), (''treatment'', VNull),
                (''documents'', VList [])]"
  have a: "?full ''assigned_on'' \<noteq> None" by simp
  have b: "?bed ''assigned_on'' = None" by simp
  have c: "validate conv_json 7 BedAssignment ?bed = Inr ?bedm"
    by (simp add: validate_def BedAssignment_fields_def conv_json_def)
  have d: "?rec ''visit_date'' = None" by simp
  have e: "validate conv_json 9 MedicalRecord ?rec = Inr ?recm"
    by (simp add: validate_def MedicalRecord_fields_def conv_json_def)
  have a': "(BedAssignment = BedAssignment \<longrightarrow> ?full ''assigned_on'' \<noteq> None)
      \<and> (BedAssignment = MedicalRecord \<longrightarrow> ?full ''visit_date'' \<noteq> None)"
    by simp
  have 1: "validate conv_json 0 BedAssignment ?full = validate conv_json 1 BedAssignment ?full"
    by (rule validate_deterministic_up_to_clock
               [where k = BedAssignment and p = ?full, THEN conjunct1, THEN mp, OF a'])
  have 2: "map_of ?bedm ''assigned_on'' = Some (VDatetime 7)"
    by (rule validate_deterministic_up_to_clock
               [where p = ?bed and m = ?bedm, THEN conjunct2, THEN conjunct1, THEN mp,
                OF conjI [OF b c]])
  have 3: "map_of ?recm ''visit_date'' = Some (VDatetime 9)"
    by (rule validate_deterministic_up_to_clock
               [where p = ?rec and m = ?recm, THEN conjunct2, THEN conjunct2, THEN mp,
                OF conjI [OF d e]])
  show ?thesis by (intro conjI a 1 b c 2 d e 3)
qed

text \<open>
  C5, as first stated (two validations of one payload give equal records, also for
  the kinds with a timestamp default), fails: the same \<open>BedAssignment\<close> payload without
  \<open>assigned_on\<close>, validated at two clock readings, gives two different records.
\<close>

theorem validate_depends_on_clock_counterexample:
  "validate conv_json 0 BedAssignment
     [''patient_id'' \<mapsto> VStr ''p1'', ''ward'' \<mapsto> VStr ''A'', ''bed_number'' \<mapsto> VStr ''12'']
   \<noteq> validate conv_json 1 BedAssignment
     [''patient_id'' \<mapsto> VStr ''p1'', ''ward'' \<mapsto> VStr ''A'', ''bed_number'' \<mapsto> VStr ''12'']"
  by (simp add: validate_def BedAssignment_fields_def conv_json_def)

text \<open>
  C6. For every field declared as an enumeration, in every schema, a payload that gives
  the field a value outside the enumeration fails validation with an error on that
  field. The status of an \<open>Appointment\<close> is such a field: the value \<open>pending\<close> is
  rejected, and the check of the field admits exactly the strings \<open>scheduled\<close>,
  \<open>completed\<close> and \<open>cancelled\<close>.
\<close>

theorem enum_field_rejects_outside_values:
  "((f, TLiteral vs, d) \<in> set (schema k) \<and> p f = Some v \<and> v \<notin> VStr ` set vs
      \<longrightarrow> (\<exists>errs. validate conv now k p = Inl errs \<and> (f, NotInEnum) \<in> set errs))
   \<and> (''status'', TLiteral [''scheduled'', ''completed'', ''cancelled''],
        Default (VStr ''scheduled'')) \<in> set (schema Appointment)
   \<and> (p ''status'' = Some (VStr ''pending'')
      \<longrightarrow> (\<exists>errs. validate conv now Appointment p = Inl errs
                  \<and> (''status'', NotInEnum) \<in> set errs))
   \<and> (check conv (TLiteral [''scheduled'', ''completed'', ''cancelled'']) v = Inr w
      \<longleftrightarrow> v = w \<and> w \<in> {VStr ''scheduled'', VStr ''completed'', VStr ''cancelled''})"
proof -
  have gen: "\<exists>errs. validate conv now k p = Inl errs \<and> (f, NotInEnum) \<in> set errs"
    if mem: "(f, TLiteral vs, d) \<in> set (schema k)" and pf: "p f = Some v"
      and out: "v \<notin> VStr ` set vs"
    for f vs d k v
  proof -
    have "check conv (TLiteral vs) v = Inl NotInEnum"
      using out by (cases v) auto
    then have "validate_field conv now p (f, TLiteral vs, d) = Inl (f, NotInEnum)"
      using pf by simp
    from validate_error_mem [OF mem this] show ?thesis .
  qed
  have mem: "(''status'', TLiteral [''scheduled'', ''completed'', ''cancelled''],
        Default (VStr ''scheduled'')) \<in> set (schema Appointment)"
    by (simp add: Appointment_fields_def)
  have pending: "VStr ''pending'' \<notin> VStr ` set [''scheduled'', ''completed'', ''cancelled'']"
    by simp
  have lit: "check conv (TLiteral [''scheduled'', ''completed'', ''cancelled'']) v = Inr w
      \<longleftrightarrow> v = w \<and> w \<in> {VStr ''scheduled'', VStr ''completed'', VStr ''cancelled''}"
    by (cases v) auto
  have pend: "\<exists>errs. validate conv now Appointment p = Inl errs
                  \<and> (''status'', NotInEnum) \<in> set errs"
    if "p ''status'' = Some (VStr ''pending'')"
    using gen [OF mem that pending] .
  show ?thesis
  proof (intro conjI impI)
    assume "(f, TLiteral vs, d) \<in> set (schema k) \<and> p f = Some v \<and> v \<notin> VStr ` set vs"
    then show "\<exists>errs. validate conv now k p = Inl errs \<and> (f, NotInEnum) \<in> set errs"
      using gen by blast
  next
    show "(''status'', TLiteral [''scheduled'', ''completed'', ''cancelled''],
        Default (VStr ''scheduled'')) \<in> set (schema Appointment)"
      by (rule mem)
  next
    assume "p ''status'' = Some (VStr ''pending'')"
    then show "\<exists>errs. validate conv now Appointment p = Inl errs
                  \<and> (''status'', NotInEnum) \<in> set errs"
      by (rule pend)
  next
    show "check conv (TLiteral [''scheduled'', ''completed'', ''cancelled'']) v = Inr w
      \<longleftrightarrow> v = w \<and> w \<in> {VStr ''scheduled'', VStr ''completed'', VStr ''cancelled''}"
      by (rule lit)
  qed
qed

theorem enum_field_rejects_outside_values_witness:
  "(''gender'', TLiteral [''male'', ''female'', ''other''], Required) \<in> set (schema Patient)
   \<and> [''first_name'' \<mapsto> VStr ''Abebe'', ''last_name'' \<mapsto> VStr ''Kebede'',
       ''gender'' \<mapsto> VStr ''unknown''] ''gender'' = Some (VStr ''unknown'')
   \<and> VStr ''unknown'' \<notin> VStr ` set [''male'', ''female'', ''other'']
   \<and> (\<exists>errs. validate conv_json 0 Patient
          [''first_name'' \<mapsto> VStr ''Abebe'', ''last_name'' \<mapsto> VStr ''Kebede'',
           ''gender'' \<mapsto> VStr ''unknown''] = Inl errs
        \<and> (''gender'', NotInEnum) \<in> set errs)
   \<and> [''patient_id'' \<mapsto> VStr ''p1'', ''doctor_id'' \<mapsto> VStr ''d1'', ''date'' \<mapsto> VDate 19000,
       ''time_slot'' \<mapsto> VStr ''10:30-11:00'', ''status'' \<mapsto> VStr ''pending''] ''status''
       = Some (VStr ''pending'')
   \<and> (\<exists>errs. validate conv_json 0 Appointment
          [''patient_id'' \<mapsto> VStr ''p1'', ''doctor_id'' \<mapsto> VStr ''d1'', ''date'' \<mapsto> VDate 19000,
           ''time_slot'' \<mapsto> VStr ''10:30-11:00'', ''status'' \<mapsto> VStr ''pending''] = Inl errs
        \<and> (''status'', NotInEnum) \<in> set errs)"
proof -
  let ?pat = "[''first_name'' \<mapsto> VStr ''Abebe'', ''last_name'' \<mapsto> VStr ''Kebede'',
               ''gender'' \<mapsto> VStr ''unknown'']"
  let ?app = "[''patient_id'' \<mapsto> VStr ''p1'', ''doctor_id'' \<mapsto> VStr ''d1'',
               ''date'' \<mapsto> VDate 19000, ''time_slot'' \<mapsto> VStr ''10:30-11:00'',
               ''status'' \<mapsto> VStr ''pending'']"
  have a: "(''gender'', TLiteral [''male'', ''female'', ''other''], Required) \<in> set (schema Patient)"
    by (simp add: Patient_fields_def)
  have b: "?pat ''gender'' = Some (VStr ''unknown'')" by simp
  have c: "VStr ''unknown'' \<notin> VStr ` set [''male'', ''female'', ''other'']" by simp
  have d: "?app ''status'' = Some (VStr ''pending'')" by simp
  have 1: "\<exists>errs. validate conv_json 0 Patient ?pat = Inl errs
             \<and> (''gender'', NotInEnum) \<in> set errs"
    by (rule enum_field_rejects_outside_values
               [where p = ?pat, THEN conjunct1, THEN mp, OF conjI [OF a conjI [OF b c]]])
  have 2: "\<exists>errs. validate conv_json 0 Appointment ?app = Inl errs
             \<and> (''status'', NotInEnum) \<in> set errs"
    by (rule enum_field_rejects_outside_values
               [where p = ?app, THEN conjunct2, THEN conjunct2, THEN conjunct1, THEN mp, OF d])
  show ?thesis by (intro conjI a b c 1 d 2)
qed

text \<open>
  C7. Validation fills in the declared defaults of the fields a payload leaves out. For
  a converter that passes strings to \<^verbatim>\<open>str\<close> fields unchanged, a \<open>Medicine\<close> payload with
  only a name validates with quantity 0 and price 0.0, and the \<open>Patient\<close> payload with
  first name, last name and gender validates with country \<open>Ethiopia\<close>; for any
  converter, a \<open>Patient\<close> payload without country that validates has country \<open>Ethiopia\<close>.
\<close>

theorem defaults_applied_to_missing_fields:
  "((\<forall>s. conv SStr (VStr s) = Some (VStr s)) \<longrightarrow>
      validate conv now Medicine [''name'' \<mapsto> VStr n] =
        Inr [(''name'', VStr n), (''sku'', VNull), (''description'', VNull),
             (''quantity'', VInt 0), (''price'', VFloat 0), (''expires_on'', VNull)]
      \<and> validate conv now Patient
          [''first_name'' \<mapsto> VStr fname, ''last_name'' \<mapsto> VStr lname, ''gender'' \<mapsto> VStr ''male''] =
        Inr [(''user_id'', VNull), (''first_name'', VStr fname), (''last_name'', VStr lname),
             (''gender'', VStr ''male''), (''dob'', VNull), (''blood_group'', VNull),
             (''address'', VNull), (''city'', VNull), (''country'', VStr ''Ethiopia''),
             (''emergency_contact'', VNull), (''medical_history'', VList []),
             (''allergies'', VList [])])
   \<and> (p ''country'' = None \<and> validate conv now Patient p = Inr m
      \<longrightarrow> map_of m ''country'' = Some (VStr ''Ethiopia''))"
proof (intro conjI impI)
  assume c: "\<forall>s. conv SStr (VStr s) = Some (VStr s)"
  then show "validate conv now Medicine [''name'' \<mapsto> VStr n] =
        Inr [(''name'', VStr n), (''sku'', VNull), (''description'', VNull),
             (''quantity'', VInt 0), (''price'', VFloat 0), (''expires_on'', VNull)]"
    by (simp add: validate_def Medicine_fields_def)
  from c show "validate conv now Patient
          [''first_name'' \<mapsto> VStr fname, ''last_name'' \<mapsto> VStr lname, ''gender'' \<mapsto> VStr ''male''] =
        Inr [(''user_id'', VNull), (''first_name'', VStr fname), (''last_name'', VStr lname),
             (''gender'', VStr ''male''), (''dob'', VNull), (''blood_group'', VNull),
             (''address'', VNull), (''city'', VNull), (''country'', VStr ''Ethiopia''),
             (''emergency_contact'', VNull), (''medical_history'', VList []),
             (''allergies'', VList [])]"
    by (simp add: validate_def Patient_fields_def)
next
  assume a: "p ''country'' = None \<and> validate conv now Patient p = Inr m"
  have "(''country'', TOptional (TScalar SStr), Default (VStr ''Ethiopia'')) \<in> set (schema Patient)"
    by (simp add: Patient_fields_def)
  from validate_default [OF this, of p now "VStr ''Ethiopia''" conv m] a
  show "map_of m ''country'' = Some (VStr ''Ethiopia'')" by simp
qed

theorem defaults_applied_to_missing_fields_witness:
  "(\<forall>s. conv_json SStr (VStr s) = Some (VStr s))
   \<and> validate conv_json 0 Medicine [''name'' \<mapsto> VStr ''Paracetamol''] =
        Inr [(''name'', VStr ''Paracetamol''), (''sku'', VNull), (''description'', VNull),
             (''quantity'', VInt 0), (''price'', VFloat 0), (''expires_on'', VNull)]
   \<and> [''first_name'' \<mapsto> VStr ''Abebe'', ''last_name'' \<mapsto> VStr ''Kebede'',
       ''gender'' \<mapsto> VStr ''male''] ''country'' = None
   \<and> validate conv_json 0 Patient
          [''first_name'' \<mapsto> VStr ''Abebe'', ''last_name'' \<mapsto> VStr ''Kebede'',
           ''gender'' \<mapsto> VStr ''male''] =
        Inr [(''user_id'', VNull), (''first_name'', VStr ''Abebe''),
             (''last_name'', VStr ''Kebede''),
             (''gender'', VStr ''male''), (''dob'', VNull), (''blood_group'', VNull),
             (''address'', VNull), (''city'', VNull), (''country'', VStr ''Ethiopia''),
             (''emergency_contact'', VNull), (''medical_history'', VList []),
             (''allergies'', VList [])]
   \<and> map_of [(''user_id'', VNull), (''first_name'', VStr ''Abebe''),
             (''last_name'', VStr ''Kebede''),
             (''gender'', VStr ''male''), (''dob'', VNull), (''blood_group'', VNull),
             (''address'', VNull), (''city'', VNull), (''country'', VStr ''Ethiopia''),
             (''emergency_contact'', VNull), (''medical_history'', VList []),
             (''allergies'', VList [])] ''country'' = Some (VStr ''Ethiopia'')"
proof -
  let ?pat = "[''first_name'' \<mapsto> VStr ''Abebe'', ''last_name'' \<mapsto> VStr ''Kebede'',
               ''gender'' \<mapsto> VStr ''male'']"
  let ?m = "[(''user_id'', VNull), (''first_name'', VStr ''Abebe''),
             (''last_name'', VStr ''Kebede''),
             (''gender'', VStr ''male''), (''dob'', VNull), (''blood_group'', VNull),
             (''address'', VNull), (''city'', VNull), (''country'', VStr ''Ethiopia''),
             (''emergency_contact'', VNull), (''medical_history'', VList []),
             (''allergies'', VList [])]"
  have a: "\<forall>s. conv_json SStr (VStr s) = Some (VStr s)"
    by (simp add: conv_json_def)
  have b: "?pat ''country'' = None" by simp
  note t = defaults_applied_to_missing_fields
             [where conv = conv_json and now = 0 and n = "''Paracetamol''"
                and fname = "''Abebe''" and lname = "''Kebede''" and p = ?pat and m = ?m]
  have 1: "validate conv_json 0 Medicine [''name'' \<mapsto> VStr ''Paracetamol''] =
        Inr [(''name'', VStr ''Paracetamol''), (''sku'', VNull), (''description'', VNull),
             (''quantity'', VInt 0), (''price'', VFloat 0), (''expires_on'', VNull)]"
    by (rule t [THEN conjunct1, THEN mp, OF a, THEN conjunct1])
  have 2: "validate conv_json 0 Patient ?pat = Inr ?m"
    by (rule t [THEN conjunct1, THEN mp, OF a, THEN conjunct2])
  have 3: "map_of ?m ''country'' = Some (VStr ''Ethiopia'')"
    by (rule t [THEN conjunct2, THEN mp, OF conjI [OF b 2]])
  show ?thesis by (intro conjI a 1 b 2 3)
qed

text \<open>
  C8. On an available store, \<^verbatim>\<open>GET /ehr/records\<close> without \<open>patient_id\<close> returns the
  first 200 medical records at most, across all patients; with a non-empty
  \<open>patient_id\<close> it returns, again 200 at most, only records whose \<open>patient_id\<close> is the
  one asked for; when no record matches it returns the empty sequence, not an error.
  The empty string as \<open>patient_id\<close> is not a filter: then records of other patients
  are returned.
\<close>

theorem list_medical_records_filtered:
  "list_medical_records None (Some st) =
     Ok (VList (map VDict (take 200 (map snd (colls st ''medicalrecord'')))))
   \<and> (x \<noteq> [] \<longrightarrow>
        list_medical_records (Some x) (Some st) =
          Ok (VList (map VDict (take 200
                (filter (\<lambda>d. map_of d ''patient_id'' = Some (VStr x))
                   (map snd (colls st ''medicalrecord'')))))))
   \<and> (x \<noteq> [] \<and> \<not> list_ex (\<lambda>d. map_of d ''patient_id'' = Some (VStr x))
                       (map snd (colls st ''medicalrecord''))
        \<longrightarrow> list_medical_records (Some x) (Some st) = Ok (VList []))"
proof (intro conjI impI)
  show "list_medical_records None (Some st) =
     Ok (VList (map VDict (take 200 (map snd (colls st ''medicalrecord'')))))"
    by (simp add: records_filter_def list_medical_records_def get_documents_def matches_def)
next
  assume "x \<noteq> []"
  then show "list_medical_records (Some x) (Some st) =
          Ok (VList (map VDict (take 200
                (filter (\<lambda>d. map_of d ''patient_id'' = Some (VStr x))
                   (map snd (colls st ''medicalrecord''))))))"
    by (simp add: records_filter_def list_medical_records_def get_documents_def
          matches_single [abs_def])
next
  assume a: "x \<noteq> [] \<and> \<not> list_ex (\<lambda>d. map_of d ''patient_id'' = Some (VStr x))
                       (map snd (colls st ''medicalrecord''))"
  then have "filter (matches [(''patient_id'', VStr x)]) (map snd (colls st ''medicalrecord'')) = []"
    by (simp add: filter_single_empty)
  with a show "list_medical_records (Some x) (Some st) = Ok (VList [])"
    by (simp add: records_filter_def list_medical_records_def get_documents_def)
qed

theorem list_medical_records_filtered_witness:
  "''p1'' \<noteq> []
   \<and> list_medical_records (Some ''p1'')
       (Some \<lparr>colls = (\<lambda>_. [])(''medicalrecord'' :=
                 [(0, [(''patient_id'', VStr ''p1''), (''diagnosis'', VStr ''flu'')]),
                  (1, [(''patient_id'', VStr ''p2''), (''diagnosis'', VStr ''cold'')])]),
              next_id = 2\<rparr>)
     = Ok (VList [VDict [(''patient_id'', VStr ''p1''), (''diagnosis'', VStr ''flu'')]])
   \<and> ''p9'' \<noteq> []
   \<and> \<not> list_ex (\<lambda>d. map_of d ''patient_id'' = Some (VStr ''p9''))
         (map snd (colls \<lparr>colls = (\<lambda>_. [])(''medicalrecord'' :=
                 [(0, [(''patient_id'', VStr ''p1''), (''diagnosis'', VStr ''flu'')]),
                  (1, [(''patient_id'', VStr ''p2''), (''diagnosis'', VStr ''cold'')])]),
              next_id = 2\<rparr> ''medicalrecord''))
   \<and> list_medical_records (Some ''p9'')
       (Some \<lparr>colls = (\<lambda>_. [])(''medicalrecord'' :=
                 [(0, [(''patient_id'', VStr ''p1''), (''diagnosis'', VStr ''flu'')]),
                  (1, [(''patient_id'', VStr ''p2''), (''diagnosis'', VStr ''cold'')])]),
              next_id = 2\<rparr>)
     = Ok (VList [])"
proof -
  let ?st = "\<lparr>colls = (\<lambda>_. [])(''medicalrecord'' :=
                 [(0, [(''patient_id'', VStr ''p1''), (''diagnosis'', VStr ''flu'')]),
                  (1, [(''patient_id'', VStr ''p2''), (''diagnosis'', VStr ''cold'')])]),
              next_id = 2\<rparr>"
  have a: "''p1'' \<noteq> []" by simp
  have b: "''p9'' \<noteq> []" by simp
  have c: "\<not> list_ex (\<lambda>d. map_of d ''patient_id'' = Some (VStr ''p9''))
         (map snd (colls ?st ''medicalrecord''))"
    by simp
  have "list_medical_records (Some ''p1'') (Some ?st) =
          Ok (VList (map VDict (take 200
                (filter (\<lambda>d. map_of d ''patient_id'' = Some (VStr ''p1''))
                   (map snd (colls ?st ''medicalrecord''))))))"
    by (rule list_medical_records_filtered
               [where x = "''p1''" and st = ?st, THEN conjunct2, THEN conjunct1, THEN mp, OF a])
  then have 1: "list_medical_records (Some ''p1'') (Some ?st)
     = Ok (VList [VDict [(''patient_id'', VStr ''p1''), (''diagnosis'', VStr ''flu'')]])"
    by simp
  have 2: "list_medical_records (Some ''p9'') (Some ?st) = Ok (VList [])"
    by (rule list_medical_records_filtered
               [where x = "''p9''" and st = ?st, THEN conjunct2, THEN conjunct2, THEN mp,
                OF conjI [OF b c]])
  show ?thesis by (intro conjI a 1 b c 2)
qed

text \<open>
  C8, as first stated (with \<open>patient_id\<close> given, only records of that patient are
  returned), fails for the empty string: the request returns a record whose
  \<open>patient_id\<close> is \<open>p1\<close>.
\<close>

theorem list_medical_records_empty_patient_id_counterexample:
  "list_medical_records (Some [])
     (Some \<lparr>colls = (\<lambda>_. [])(''medicalrecord'' := [(0, [(''patient_id'', VStr ''p1'')])]),
            next_id = 1\<rparr>)
     = Ok (VList [VDict [(''patient_id'', VStr ''p1'')]])
   \<and> get [(''patient_id'', VStr ''p1'')] ''patient_id'' \<noteq> VStr []"
  by (simp add: records_filter_def list_medical_records_def get_documents_def matches_def
        get_def)

text \<open>
  C9. With the store unavailable, login takes the lookup to have found no user and
  answers 401 \<open>Invalid credentials\<close>, the very response it gives on an available store
  for an e-mail address that no user has; signup in the same condition answers 500
  \<open>Database not available\<close> and leaves the handle as it was.
\<close>

theorem store_unavailable_login_401_signup_500:
  "login req None = HTTPException 401 ''Invalid credentials''
   \<and> (\<not> user_exists st (email req) \<longrightarrow> login req (Some st) = login req None)
   \<and> signup sreq t1 t2 t3 None = (HTTPException 500 ''Database not available'', None)"
proof (intro conjI impI)
  show 1: "login req None = HTTPException 401 ''Invalid credentials''"
    by (simp add: login_def)
  show "signup sreq t1 t2 t3 None = (HTTPException 500 ''Database not available'', None)"
    by (simp add: signup_def)
  assume "\<not> user_exists st (email req)"
  from get_documents_user_none [OF this] 1
  show "login req (Some st) = login req None"
    by (simp add: login_def)
qed

theorem store_unavailable_login_401_signup_500_witness:
  "\<not> user_exists empty_db (email \<lparr>email = ''abebe@example.org'', password = ''pw1''\<rparr>)
   \<and> login \<lparr>email = ''abebe@example.org'', password = ''pw1''\<rparr> (Some empty_db)
     = login \<lparr>email = ''abebe@example.org'', password = ''pw1''\<rparr> None
   \<and> login \<lparr>email = ''abebe@example.org'', password = ''pw1''\<rparr> None
     = HTTPException 401 ''Invalid credentials''
   \<and> signup \<lparr>email = ''abebe@example.org'', password = ''pw1'',
              full_name = ''Abebe Kebede'', role = ''patient''\<rparr> 1 2 3 None
     = (HTTPException 500 ''Database not available'', None)"
proof -
  let ?req = "\<lparr>email = ''abebe@example.org'', password = ''pw1''\<rparr>"
  let ?sreq = "\<lparr>email = ''abebe@example.org'', password = ''pw1'',
              full_name = ''Abebe Kebede'', role = ''patient''\<rparr>"
  note t = store_unavailable_login_401_signup_500
             [where req = ?req and st = empty_db and sreq = ?sreq
                and ?t1.0 = 1 and ?t2.0 = 2 and ?t3.0 = 3]
  have a: "\<not> user_exists empty_db (email ?req)"
    by (simp add: user_exists_def empty_db_def)
  have 1: "login ?req (Some empty_db) = login ?req None"
    by (rule t [THEN conjunct2, THEN conjunct1, THEN mp, OF a])
  have 2: "login ?req None = HTTPException 401 ''Invalid credentials''"
    by (rule t [THEN conjunct1])
  have 3: "signup ?sreq 1 2 3 None = (HTTPException 500 ''Database not available'', None)"
    by (rule t [THEN conjunct2, THEN conjunct2])
  show ?thesis by (intro conjI a 1 2 3)
qed

text \<open>
  C10. \<^verbatim>\<open>GET /ehr/records\<close> with the empty string as \<open>patient_id\<close> is answered as the
  request without the parameter: the filter is empty, and the records of all patients
  are returned (the first 200 at most), not only those whose \<open>patient_id\<close> is the empty
  string.
\<close>

theorem empty_patient_id_is_no_filter:
  "records_filter (Some []) = []
   \<and> records_filter (Some []) = records_filter None
   \<and> list_medical_records (Some []) db = list_medical_records None db
   \<and> list_medical_records (Some []) (Some st) =
       Ok (VList (map VDict (take 200 (map snd (colls st ''medicalrecord'')))))"
  by (simp add: records_filter_def list_medical_records_def get_documents_def matches_def)

end
